theory Spec2Isabelle
  imports Main "HOL-Library.Word"
begin

unbundle bit_operations_syntax

section \<open>Shared types (ir.go)\<close>

text \<open>
  \<^verbatim>\<open>time.Duration\<close> is a signed 64-bit count of nanoseconds. The decoders only compare
  durations with constants, so a duration is modelled by the integer it denotes; the one
  place where durations are added (the PPM decoder) writes the 64-bit wrap-around out.
  \<^verbatim>\<open>TimePair\<close> is \<^verbatim>\<open>[2]time.Duration\<close>: the pair of its two entries.
\<close>

type_synonym Duration = int
type_synonym Time = int
type_synonym TimePair = "Duration \<times> Duration"

abbreviation Microsecond :: Duration where
  "Microsecond \<equiv> 1000"

abbreviation Millisecond :: Duration where
  "Millisecond \<equiv> 1000000"

definition minDuration :: Duration where
  "minDuration = - (2 ^ 63)"

definition maxDuration :: Duration where
  "maxDuration = 2 ^ 63 - 1"

text \<open>Addition of two \<^verbatim>\<open>int64\<close> values wraps around in Go.\<close>

definition wrap64 :: "int \<Rightarrow> int" where
  "wrap64 x = (x + 2 ^ 63) mod 2 ^ 64 - 2 ^ 63"

text \<open>
  The bit counters and the channel index are Go \<^verbatim>\<open>int\<close>s, whose width the target fixes
  (32 or 64 bits). The generic fixed code and the addressed 32-bit decoders increment
  their counter without any bound until the next start of frame, so there the width \<open>w\<close>
  is a parameter of the decoder and \<^verbatim>\<open>bitcount++\<close> wraps around in two's complement. The parity 9-bit decoder resets its
  counter at 9 and the proportional decoder stops at index 16; in every state they reach
  from their constructors the increment stays far below any such width.
\<close>

definition int_wrap :: "nat \<Rightarrow> int \<Rightarrow> int" where
  "int_wrap w x = (x + 2 ^ (w - 1)) mod 2 ^ w - 2 ^ (w - 1)"

text \<open>
  Run-time panics of Go that the decoders could raise: a shift by a negative count and
  an array index out of range.
\<close>

datatype panic = NegativeShiftCount | IndexOutOfRange

text \<open>
  A decoder's \<^verbatim>\<open>HandleTimePair\<close> mutates the state machine and may call the command
  handler. The model returns the new state together with the list of values the handler
  was called with during this call, or the panic. \<open>feed\<close> is the receiver calling
  \<^verbatim>\<open>HandleTimePair\<close> once per pair, in order (\<^verbatim>\<open>RxDevice.interruptHandler\<close>), and
  collects the handler calls in the order they were made.
\<close>

fun feed :: "('s \<Rightarrow> 'p \<Rightarrow> panic + 's \<times> 'v list) \<Rightarrow> 's \<Rightarrow> 'p list \<Rightarrow> panic + 's \<times> 'v list" where
  "feed h s [] = Inr (s, [])"
| "feed h s (p # ps) =
     (case h s p of
        Inl e \<Rightarrow> Inl e
      | Inr (s', out) \<Rightarrow>
          (case feed h s' ps of
             Inl e \<Rightarrow> Inl e
           | Inr (s'', out') \<Rightarrow> Inr (s'', out @ out')))"

section \<open>Generic fixed code (cheapo/cheapo.go)\<close>

record cheapo_StateMachine =
  cheapo_buf :: "32 word"
  cheapo_bitcount :: int

definition cheapo_NewStateMachine :: cheapo_StateMachine where
  "cheapo_NewStateMachine = \<lparr>cheapo_buf = 0, cheapo_bitcount = 0\<rparr>"

text \<open>
  The \<^verbatim>\<open>switch\<close> of \<^verbatim>\<open>HandleTimePair\<close>: the start-of-frame case returns; the case
  \<^verbatim>\<open>off > time.Millisecond\<close> sets a bit and falls through to the increment of the case
  \<^verbatim>\<open>off < time.Millisecond\<close>; a pair with \<^verbatim>\<open>off == time.Millisecond\<close> matches no case.
\<close>

definition cheapo_switch ::
  "nat \<Rightarrow> cheapo_StateMachine \<Rightarrow> Duration \<Rightarrow> panic + cheapo_StateMachine" where
  "cheapo_switch w c off =
     (if off > Millisecond then
        (if cheapo_bitcount c < 0 then Inl NegativeShiftCount
         else Inr (c\<lparr>cheapo_buf := cheapo_buf c OR push_bit (nat (cheapo_bitcount c)) 1,
                     cheapo_bitcount := int_wrap w (cheapo_bitcount c + 1)\<rparr>))
      else if off < Millisecond
      then Inr (c\<lparr>cheapo_bitcount := int_wrap w (cheapo_bitcount c + 1)\<rparr>)
      else Inr c)"

fun cheapo_HandleTimePair ::
  "nat \<Rightarrow> cheapo_StateMachine \<Rightarrow> TimePair \<Rightarrow> panic + cheapo_StateMachine \<times> 32 word list" where
  "cheapo_HandleTimePair w c (on, off) =
     (if on > 7 * Millisecond then Inr (c\<lparr>cheapo_buf := 0, cheapo_bitcount := 0\<rparr>, [])
      else
        (case cheapo_switch w c off of
           Inl e \<Rightarrow> Inl e
         | Inr c' \<Rightarrow>
             if cheapo_bitcount c' < 10 then Inr (c', [])
             else Inr (c', [cheapo_buf c'])))"

section \<open>Addressed 32-bit code (samsung/samsung.go)\<close>

record samsung_Frame =
  Addr :: "16 word"
  Cmd :: "16 word"

record samsung_StateMachine =
  samsung_buf :: "32 word"
  samsung_bitcount :: int

datatype error = ErrFrameAlloc

definition samsung_NewStateMachine :: samsung_StateMachine where
  "samsung_NewStateMachine = \<lparr>samsung_buf = 0, samsung_bitcount = 0\<rparr>"

text \<open>
  \<^verbatim>\<open>UnmarshalFrame\<close> has a pointer receiver: \<open>None\<close> is the nil pointer. The result is
  the frame the pointer refers to after the call, and the returned error (\<open>None\<close> for
  \<^verbatim>\<open>nil\<close>).
\<close>

definition UnmarshalFrame :: "samsung_Frame option \<Rightarrow> 32 word \<Rightarrow> samsung_Frame option \<times> error option" where
  "UnmarshalFrame f buf =
     (case f of
        None \<Rightarrow> (None, Some ErrFrameAlloc)
      | Some fr \<Rightarrow>
          (Some (fr\<lparr>Addr := ucast (buf AND 0xFFFF),
                     Cmd := ucast (drop_bit 16 buf AND 0xFFFF)\<rparr>), None))"

text \<open>
  The bit step of \<^verbatim>\<open>HandleTimePair\<close>: \<^verbatim>\<open>if on > time.Millisecond { sm.buf |= 1 << sm.bitcount }\<close>.
\<close>

definition samsung_bit :: "samsung_StateMachine \<Rightarrow> Duration \<Rightarrow> panic + samsung_StateMachine" where
  "samsung_bit sm on =
     (if on > Millisecond then
        (if samsung_bitcount sm < 0 then Inl NegativeShiftCount
         else Inr (sm\<lparr>samsung_buf := samsung_buf sm OR push_bit (nat (samsung_bitcount sm)) 1\<rparr>))
      else Inr sm)"

fun samsung_HandleTimePair ::
  "nat \<Rightarrow> samsung_StateMachine \<Rightarrow> TimePair \<Rightarrow> panic + samsung_StateMachine \<times> samsung_Frame list" where
  "samsung_HandleTimePair w sm (on, off) =
     (if on > 200 * Millisecond then Inr (sm, [])
      else if off > 3 * Millisecond then
        (if on > 3 * Millisecond
         then Inr (sm\<lparr>samsung_buf := 0, samsung_bitcount := 0\<rparr>, [])
         else Inr (sm, []))
      else
        (case samsung_bit sm on of
           Inl e \<Rightarrow> Inl e
         | Inr sm1 \<Rightarrow>
             (let sm2 = sm1\<lparr>samsung_bitcount := int_wrap w (samsung_bitcount sm1 + 1)\<rparr> in
              if samsung_bitcount sm2 \<noteq> 32 then Inr (sm2, [])
              else
                (case UnmarshalFrame (Some \<lparr>Addr = 0, Cmd = 0\<rparr>) (samsung_buf sm2) of
                   (Some f, _) \<Rightarrow> Inr (sm2, [f])
                 | (None, _) \<Rightarrow> Inr (sm2, [\<lparr>Addr = 0, Cmd = 0\<rparr>])))))"

definition StartPair :: TimePair where
  "StartPair = (6 * Millisecond, 3 * Millisecond)"

definition ZeroPair :: TimePair where
  "ZeroPair = (562 * Microsecond, 1687 * Microsecond)"

definition OnePair :: TimePair where
  "OnePair = (562 * Microsecond, 562 * Microsecond)"

text \<open>
  \<^verbatim>\<open>MarshalFrame\<close> fills a slice of 34 pairs by index: the start pair, one pair for each
  of the 32 bits of \<^verbatim>\<open>uint32(f.Cmd)<<16 | uint32(f.Addr)\<close> from bit 0 upwards, and the
  stop pair. The receiver is modelled as the frame it points to.
\<close>

definition MarshalFrame :: "samsung_Frame \<Rightarrow> TimePair list" where
  "MarshalFrame f =
     (let out0 = (replicate 34 (0, 0))[0 := StartPair];
          buf = push_bit 16 (ucast (Cmd f) :: 32 word) OR ucast (Addr f);
          out1 = fold (\<lambda>b out. out[b + 1 := (if drop_bit b buf AND 1 = 1 then OnePair else ZeroPair)])
                   [0..<32] out0
      in out1[33 := ZeroPair])"

section \<open>Parity-checked 9-bit code (package hexbug, in rx.go)\<close>

text \<open>\<^verbatim>\<open>rcvbuf\<close> is an \<^verbatim>\<open>int16\<close>: a 16-bit word, read as signed by the handler.\<close>

record hexbug_StateMachine =
  rcvbuf :: "16 word"
  hexbug_bitcount :: int
  parity :: bool

definition hexbug_NewStateMachine :: hexbug_StateMachine where
  "hexbug_NewStateMachine = \<lparr>rcvbuf = 0, hexbug_bitcount = 0, parity = False\<rparr>"

text \<open>
  The bit step of \<^verbatim>\<open>HandleTimePair\<close>: a second duration above 750 us sets the bit at
  the counter's position and toggles the parity flag.
\<close>

definition hexbug_bit :: "hexbug_StateMachine \<Rightarrow> Duration \<Rightarrow> panic + hexbug_StateMachine" where
  "hexbug_bit hb off =
     (if off > 750 * Microsecond then
        (if hexbug_bitcount hb < 0 then Inl NegativeShiftCount
         else Inr (hb\<lparr>rcvbuf := rcvbuf hb OR push_bit (nat (hexbug_bitcount hb)) 1,
                      parity := \<not> parity hb\<rparr>))
      else Inr hb)"

fun hexbug_HandleTimePair ::
  "hexbug_StateMachine \<Rightarrow> TimePair \<Rightarrow> panic + hexbug_StateMachine \<times> 16 word list" where
  "hexbug_HandleTimePair hb (on, off) =
     (if off > 1600 * Microsecond
      then Inr (hb\<lparr>rcvbuf := 0, hexbug_bitcount := 0, parity := False\<rparr>, [])
      else
        (case hexbug_bit hb off of
           Inl e \<Rightarrow> Inl e
         | Inr hb1 \<Rightarrow>
             (let hb2 = hb1\<lparr>hexbug_bitcount := hexbug_bitcount hb1 + 1\<rparr> in
              if hexbug_bitcount hb2 = 9
              then Inr (hb2\<lparr>rcvbuf := 0, hexbug_bitcount := 0, parity := False\<rparr>,
                        if parity hb2 then [rcvbuf hb2] else [])
              else Inr (hb2, []))))"

section \<open>Proportional multichannel code (package ppm, in unnamed/part_000)\<close>

text \<open>
  The file holds two revisions of the decoder. The later one, which guards against a zero
  time stamp and rounds the channel values, is modelled first; the earlier one follows.

  \<^verbatim>\<open>[16]time.Duration\<close> is a list that is 16 long in every state the code can build.
  A \<^verbatim>\<open>time.Time\<close> is the number of nanoseconds since the zero time, so that
  \<^verbatim>\<open>IsZero\<close> is equality with 0; the value of \<^verbatim>\<open>time.Now()\<close> is a parameter of each
  call. \<^verbatim>\<open>time.Since\<close>, \<^verbatim>\<open>Time.IsZero\<close> and \<^verbatim>\<open>Duration.Round\<close> are Go's standard
  library, modelled from its documentation: \<^verbatim>\<open>time.Since\<close> is \<^verbatim>\<open>Time.Sub\<close>, which saturates
  at the least and greatest \<^verbatim>\<open>Duration\<close>; \<^verbatim>\<open>Duration.Round\<close> rounds to the nearest
  multiple, halfway values away from zero, and saturates as well.
\<close>

record ppm_StateMachine =
  ppm_channels :: "Duration list"
  ppm_safeChannels :: "Duration list"
  ppm_Timeout :: Duration
  ppm_currentCh :: int
  ppm_last :: Time

definition minimumTimeBetweenFrames :: Duration where
  "minimumTimeBetweenFrames = 6 * Millisecond"

definition SafeChannelsMid :: "Duration list" where
  "SafeChannelsMid = replicate 16 (1500 * Microsecond)"

definition SafeChannelsBottom :: "Duration list" where
  "SafeChannelsBottom = replicate 16 (1000 * Microsecond)"

definition ppm_NewStateMachine :: ppm_StateMachine where
  "ppm_NewStateMachine =
     \<lparr>ppm_channels = SafeChannelsMid, ppm_safeChannels = SafeChannelsMid,
      ppm_Timeout = 100 * minimumTimeBetweenFrames, ppm_currentCh = 0, ppm_last = 0\<rparr>"

definition time_IsZero :: "Time \<Rightarrow> bool" where
  "time_IsZero t = (t = 0)"

definition time_Since :: "Time \<Rightarrow> Time \<Rightarrow> Duration" where
  "time_Since now t = max minDuration (min maxDuration (now - t))"

definition Duration_Round :: "Duration \<Rightarrow> Duration \<Rightarrow> Duration" where
  "Duration_Round d m =
     (if m \<le> 0 then d
      else if d < 0 then
        (let r = (- d) mod m in
         if r + r < m then d + r
         else if minDuration \<le> d - m + r then d - m + r
         else minDuration)
      else
        (let r = d mod m in
         if r + r < m then d - r
         else if d + m - r \<le> maxDuration then d + m - r
         else maxDuration))"

fun ppm_HandleTimePair :: "Time \<Rightarrow> ppm_StateMachine \<Rightarrow> TimePair \<Rightarrow> panic + ppm_StateMachine" where
  "ppm_HandleTimePair now sm (on, off) =
     (if on > minimumTimeBetweenFrames then Inr (sm\<lparr>ppm_last := now, ppm_currentCh := 0\<rparr>)
      else if time_IsZero (ppm_last sm) then Inr sm
      else if ppm_currentCh sm \<ge> 16 then Inr sm
      else if ppm_currentCh sm < 0 then Inl IndexOutOfRange
      else Inr (sm\<lparr>ppm_channels :=
                      (ppm_channels sm)[nat (ppm_currentCh sm) :=
                         Duration_Round (wrap64 (on + off)) (10 * Microsecond)],
                    ppm_currentCh := ppm_currentCh sm + 1\<rparr>))"

text \<open>
  The earlier revision of the decoder in the same file: its constructor leaves the
  channels at zero, and its \<^verbatim>\<open>HandleTimePair\<close> has no guard on the zero time stamp
  and no rounding. It compares the first duration with \<^verbatim>\<open>ppmMinimumTimeBetweenFrames\<close>,
  a constant that no source file defines: it is the first parameter of the model.
\<close>

definition ppm_NewStateMachine_rev1 :: ppm_StateMachine where
  "ppm_NewStateMachine_rev1 =
     \<lparr>ppm_channels = replicate 16 0, ppm_safeChannels = SafeChannelsMid,
      ppm_Timeout = 100 * minimumTimeBetweenFrames, ppm_currentCh = 0, ppm_last = 0\<rparr>"

fun ppm_HandleTimePair_rev1 ::
  "Duration \<Rightarrow> Time \<Rightarrow> ppm_StateMachine \<Rightarrow> TimePair \<Rightarrow> panic + ppm_StateMachine" where
  "ppm_HandleTimePair_rev1 ppmMinimumTimeBetweenFrames now p (on, off) =
     (if on > ppmMinimumTimeBetweenFrames then Inr (p\<lparr>ppm_last := now, ppm_currentCh := 0\<rparr>)
      else if ppm_currentCh p \<ge> 16 then Inr p
      else if ppm_currentCh p < 0 then Inl IndexOutOfRange
      else Inr (p\<lparr>ppm_channels := (ppm_channels p)[nat (ppm_currentCh p) := wrap64 (on + off)],
                   ppm_currentCh := ppm_currentCh p + 1\<rparr>))"

text \<open>The receiver feeding the decoder: each pair comes with the clock reading of its call.\<close>

fun ppm_feed ::
  "(Time \<Rightarrow> ppm_StateMachine \<Rightarrow> TimePair \<Rightarrow> panic + ppm_StateMachine) \<Rightarrow>
   ppm_StateMachine \<Rightarrow> (Time \<times> TimePair) list \<Rightarrow> panic + ppm_StateMachine" where
  "ppm_feed h sm [] = Inr sm"
| "ppm_feed h sm ((now, p) # ps) =
     (case h now sm p of Inl e \<Rightarrow> Inl e | Inr sm' \<Rightarrow> ppm_feed h sm' ps)"

definition IsSafe :: "Time \<Rightarrow> ppm_StateMachine \<Rightarrow> bool" where
  "IsSafe now sm = (time_Since now (ppm_last sm) > ppm_Timeout sm)"

text \<open>Indexing a \<^verbatim>\<open>[16]time.Duration\<close> with an \<^verbatim>\<open>int\<close>: out of range is a panic.\<close>

definition index16 :: "Duration list \<Rightarrow> int \<Rightarrow> panic + Duration" where
  "index16 a ch = (if 0 \<le> ch \<and> ch < 16 then Inr (a ! nat ch) else Inl IndexOutOfRange)"

definition Channel :: "Time \<Rightarrow> ppm_StateMachine \<Rightarrow> int \<Rightarrow> panic + Duration" where
  "Channel now sm ch =
     (if IsSafe now sm then index16 (ppm_safeChannels sm) ch else index16 (ppm_channels sm) ch)"

definition Channels :: "Time \<Rightarrow> ppm_StateMachine \<Rightarrow> Duration list" where
  "Channels now sm = (if IsSafe now sm then ppm_safeChannels sm else ppm_channels sm)"

section \<open>Feeding a pulse sequence\<close>

lemma feed_append:
  "feed h s (xs @ ys) =
     (case feed h s xs of
        Inl e \<Rightarrow> Inl e
      | Inr (s', out) \<Rightarrow>
          (case feed h s' ys of
             Inl e \<Rightarrow> Inl e
           | Inr (s'', out') \<Rightarrow> Inr (s'', out @ out')))"
  by (induction xs arbitrary: s) (auto split: sum.splits)

text \<open>
  Bits arrive least significant first: the value of a bit list is its Horner sum, and
  appending a bit below the word size sets the bit at the position of the counter.
\<close>

lemma horner_snoc_word:
  fixes bs :: "bool list"
  assumes "length bs < LENGTH('a::len)"
  shows "(horner_sum of_bool 2 (bs @ [b]) :: 'a word) =
         (if b then horner_sum of_bool 2 bs OR push_bit (length bs) 1 else horner_sum of_bool 2 bs)"
proof (rule bit_eqI)
  fix n
  show "bit (horner_sum of_bool 2 (bs @ [b]) :: 'a word) n =
        bit (if b then horner_sum of_bool 2 bs OR push_bit (length bs) 1
             else horner_sum of_bool 2 bs :: 'a word) n"
    using assms by (cases "n < length bs") (auto simp: bit_simps nth_append less_Suc_eq)
qed

section \<open>The counter of a Go \<^verbatim>\<open>int\<close>\<close>

text \<open>An increment that stays below the largest value of the \<open>w\<close>-bit integer does not wrap.\<close>

lemma int_wrap_id:
  assumes "0 < w" "- (2 ^ (w - 1)) \<le> x" "x < 2 ^ (w - 1)"
  shows "int_wrap w x = x"
proof -
  from assms(1) have "w = Suc (w - 1)" by simp
  then have p: "(2::int) ^ w = 2 * 2 ^ (w - 1)" by (metis power_Suc)
  have "0 \<le> x + 2 ^ (w - 1)" "x + 2 ^ (w - 1) < 2 ^ w"
    using assms(2,3) p by simp_all
  then have "(x + 2 ^ (w - 1)) mod 2 ^ w = x + 2 ^ (w - 1)"
    by (rule mod_pos_pos_trivial)
  then show ?thesis by (simp add: int_wrap_def)
qed

lemma int_wrap_incr:
  assumes "0 < w" "0 \<le> n" "n + 1 < 2 ^ (w - 1)"
  shows "int_wrap w (n + 1) = n + 1"
proof (rule int_wrap_id[OF assms(1)])
  have "(0::int) \<le> 2 ^ (w - 1)" by simp
  with assms(2) show "- (2 ^ (w - 1)) \<le> n + 1" by linarith
  show "n + 1 < 2 ^ (w - 1)" by (rule assms(3))
qed

section \<open>Generic fixed code: frames\<close>

lemma cheapo_feed_partial:
  assumes "0 < w" "10 < (2::int) ^ (w - 1)" "length ps \<le> 9"
    "\<forall>p\<in>set ps. fst p \<le> 7 * Millisecond \<and> snd p \<noteq> Millisecond"
  shows "feed (cheapo_HandleTimePair w) \<lparr>cheapo_buf = 0, cheapo_bitcount = 0\<rparr> ps =
         Inr (\<lparr>cheapo_buf = horner_sum of_bool 2 (map (\<lambda>p. Millisecond < snd p) ps),
                cheapo_bitcount = int (length ps)\<rparr>, [])"
  using assms(3,4)
proof (induction ps rule: rev_induct)
  case Nil
  then show ?case by simp
next
  case (snoc p ps)
  obtain on off where p: "p = (on, off)" by (cases p)
  from snoc.prems have len: "length ps \<le> 8" and cl: "on \<le> 7 * Millisecond" "off \<noteq> Millisecond"
    by (auto simp: p)
  from snoc have IH: "feed (cheapo_HandleTimePair w) \<lparr>cheapo_buf = 0, cheapo_bitcount = 0\<rparr> ps =
         Inr (\<lparr>cheapo_buf = horner_sum of_bool 2 (map (\<lambda>p. Millisecond < snd p) ps),
                cheapo_bitcount = int (length ps)\<rparr>, [])" by simp
  have inc: "int_wrap w (int (length ps) + 1) = int (length ps) + 1"
    using assms(1,2) len by (intro int_wrap_incr) simp_all
  show ?case
    using len cl
    by (simp add: feed_append IH p cheapo_switch_def horner_snoc_word inc)
qed

lemma cheapo_feed_frame:
  assumes "0 < w" "10 < (2::int) ^ (w - 1)" "length ps = 10"
    "\<forall>p\<in>set ps. fst p \<le> 7 * Millisecond \<and> snd p \<noteq> Millisecond"
  shows "feed (cheapo_HandleTimePair w) \<lparr>cheapo_buf = 0, cheapo_bitcount = 0\<rparr> ps =
         Inr (\<lparr>cheapo_buf = horner_sum of_bool 2 (map (\<lambda>p. Millisecond < snd p) ps),
                cheapo_bitcount = 10\<rparr>,
              [horner_sum of_bool 2 (map (\<lambda>p. Millisecond < snd p) ps)])"
proof -
  from assms(3) obtain qs q where ps: "ps = qs @ [q]"
    by (cases ps rule: rev_cases) auto
  obtain on off where q: "q = (on, off)" by (cases q)
  from assms(3,4) ps q have len: "length qs = 9" and cl: "on \<le> 7 * Millisecond" "off \<noteq> Millisecond"
    and qs: "\<forall>p\<in>set qs. fst p \<le> 7 * Millisecond \<and> snd p \<noteq> Millisecond"
    by auto
  have part: "feed (cheapo_HandleTimePair w) \<lparr>cheapo_buf = 0, cheapo_bitcount = 0\<rparr> qs =
         Inr (\<lparr>cheapo_buf = horner_sum of_bool 2 (map (\<lambda>p. Millisecond < snd p) qs),
                cheapo_bitcount = int (length qs)\<rparr>, [])"
    using len qs assms(1,2) by (intro cheapo_feed_partial) auto
  have inc: "int_wrap w (9 + 1) = 9 + 1"
    using assms(1,2) by (intro int_wrap_incr) simp_all
  show ?thesis
    using len cl inc
    by (simp add: ps q feed_append part cheapo_switch_def horner_snoc_word)
qed

text \<open>
  When none of the ten pairs has a second duration of exactly 1 ms, a start marker and
  the ten pairs call the handler once, at the tenth pair, with the bit pattern that was
  fed.
\<close>

lemma cheapo_ten_pulses_off_threshold:
  assumes "0 < w" "10 < (2::int) ^ (w - 1)" "on > 7 * Millisecond" "length ps = 10"
    "\<forall>p\<in>set ps. fst p \<le> 7 * Millisecond \<and> snd p \<noteq> Millisecond"
  shows "cheapo_HandleTimePair w c (on, off) = Inr (\<lparr>cheapo_buf = 0, cheapo_bitcount = 0\<rparr>, []) \<and>
    (\<exists>v. feed (cheapo_HandleTimePair w) c ((on, off) # ps) =
            Inr (\<lparr>cheapo_buf = v, cheapo_bitcount = 10\<rparr>, [v]) \<and>
         (\<forall>i. bit v i \<longleftrightarrow> i < 10 \<and> Millisecond < snd (ps ! i)))"
proof -
  let ?v = "horner_sum of_bool 2 (map (\<lambda>p. Millisecond < snd p) ps) :: 32 word"
  have start: "cheapo_HandleTimePair w c (on, off) = Inr (\<lparr>cheapo_buf = 0, cheapo_bitcount = 0\<rparr>, [])"
    using assms(3) by simp
  have run: "feed (cheapo_HandleTimePair w) c ((on, off) # ps) =
            Inr (\<lparr>cheapo_buf = ?v, cheapo_bitcount = 10\<rparr>, [?v])"
    using start cheapo_feed_frame[OF assms(1,2,4,5)] by simp
  have bits: "\<forall>i. bit ?v i \<longleftrightarrow> i < 10 \<and> Millisecond < snd (ps ! i)"
    using assms(4) by (auto simp: bit_simps)
  from start run bits show ?thesis by blast
qed

text \<open>
  Claim C9. On a new state machine a start marker is followed by ten pairs, none of them
  a start marker, the fifth with a second duration of exactly 1 ms. That pair matches no
  case of the switch (the defect of claim C7), so after the ten pairs the bit counter is 9
  and the handler has not been called, where the claim has exactly one handler call.
\<close>

theorem cheapo_ten_pulses_one_exact_threshold:
  "feed (cheapo_HandleTimePair 32) cheapo_NewStateMachine
     ((8 * Millisecond, 4 * Millisecond) #
      [(500000, 2000000), (500000, 500000), (500000, 2000000), (500000, 500000),
       (500000, Millisecond), (500000, 500000), (500000, 500000), (500000, 2000000),
       (500000, 2000000), (500000, 500000)]) =
     Inr (\<lparr>cheapo_buf = 197, cheapo_bitcount = 9\<rparr>, []) \<and>
   feed (cheapo_HandleTimePair 64) cheapo_NewStateMachine
     ((8 * Millisecond, 4 * Millisecond) #
      [(500000, 2000000), (500000, 500000), (500000, 2000000), (500000, 500000),
       (500000, Millisecond), (500000, 500000), (500000, 500000), (500000, 2000000),
       (500000, 2000000), (500000, 500000)]) =
     Inr (\<lparr>cheapo_buf = 197, cheapo_bitcount = 9\<rparr>, [])"
  by code_simp

section \<open>Generic fixed code: after a delivery\<close>








section \<open>Thresholds met exactly\<close>

text \<open>
  The other decoders test one threshold per decision, so a duration equal to the threshold
  takes the branch of the shorter durations: here, a zero bit is appended.
\<close>

lemma hexbug_exact_threshold_is_zero_bit:
  assumes "0 \<le> hexbug_bitcount hb" "hexbug_bitcount hb < 8"
  shows "hexbug_HandleTimePair hb (on, 750 * Microsecond) =
           Inr (hb\<lparr>hexbug_bitcount := hexbug_bitcount hb + 1\<rparr>, [])"
  using assms by (simp add: hexbug_bit_def)

lemma samsung_exact_threshold_is_zero_bit:
  assumes "0 < w" "0 \<le> samsung_bitcount sm" "samsung_bitcount sm < 31"
    "samsung_bitcount sm + 1 < 2 ^ (w - 1)" "off \<le> 3 * Millisecond"
  shows "samsung_HandleTimePair w sm (Millisecond, off) =
           Inr (sm\<lparr>samsung_bitcount := samsung_bitcount sm + 1\<rparr>, [])"
proof -
  have inc: "int_wrap w (samsung_bitcount sm + 1) = samsung_bitcount sm + 1"
    using assms(1,2,4) by (intro int_wrap_incr) simp_all
  show ?thesis using assms(3,5) by (simp add: samsung_bit_def inc)
qed

text \<open>
  Claim C7. In the generic fixed code decoder a pair whose second duration is exactly 1 ms
  matches neither \<^verbatim>\<open>off > time.Millisecond\<close> nor \<^verbatim>\<open>off < time.Millisecond\<close>: on a new
  state machine no bit is appended and the bit counter stays 0, where the claim has a zero
  bit appended and the counter at 1.
\<close>

theorem cheapo_exact_threshold_dropped:
  "cheapo_HandleTimePair w cheapo_NewStateMachine (500 * Microsecond, Millisecond) =
     Inr (\<lparr>cheapo_buf = 0, cheapo_bitcount = 0\<rparr>, [])"
  by (simp add: cheapo_NewStateMachine_def cheapo_switch_def)

section \<open>Parity-checked 9-bit code: frames\<close>

lemma hexbug_feed_partial:
  assumes "length ps \<le> 8" "\<forall>p\<in>set ps. snd p \<le> 1600 * Microsecond"
  shows "feed hexbug_HandleTimePair \<lparr>rcvbuf = 0, hexbug_bitcount = 0, parity = False\<rparr> ps =
         Inr (\<lparr>rcvbuf = horner_sum of_bool 2 (map (\<lambda>p. 750 * Microsecond < snd p) ps),
                hexbug_bitcount = int (length ps),
                parity = odd (length (filter (\<lambda>p. 750 * Microsecond < snd p) ps))\<rparr>, [])"
  using assms
proof (induction ps rule: rev_induct)
  case Nil
  then show ?case by simp
next
  case (snoc p ps)
  obtain on off where p: "p = (on, off)" by (cases p)
  from snoc.prems have len: "length ps \<le> 7" and cl: "off \<le> 1600 * Microsecond"
    by (auto simp: p)
  from snoc have IH: "feed hexbug_HandleTimePair \<lparr>rcvbuf = 0, hexbug_bitcount = 0, parity = False\<rparr> ps =
         Inr (\<lparr>rcvbuf = horner_sum of_bool 2 (map (\<lambda>p. 750 * Microsecond < snd p) ps),
                hexbug_bitcount = int (length ps),
                parity = odd (length (filter (\<lambda>p. 750 * Microsecond < snd p) ps))\<rparr>, [])" by simp
  show ?case
    using len cl
    by (simp add: feed_append IH p hexbug_bit_def horner_snoc_word)
qed

lemma hexbug_feed_frame:
  assumes "length ps = 9" "\<forall>p\<in>set ps. snd p \<le> 1600 * Microsecond"
  shows "feed hexbug_HandleTimePair \<lparr>rcvbuf = 0, hexbug_bitcount = 0, parity = False\<rparr> ps =
         Inr (\<lparr>rcvbuf = 0, hexbug_bitcount = 0, parity = False\<rparr>,
              if odd (length (filter (\<lambda>p. 750 * Microsecond < snd p) ps))
              then [horner_sum of_bool 2 (map (\<lambda>p. 750 * Microsecond < snd p) ps)] else [])"
proof -
  from assms(1) obtain qs q where ps: "ps = qs @ [q]"
    by (cases ps rule: rev_cases) auto
  obtain on off where q: "q = (on, off)" by (cases q)
  from assms ps q have len: "length qs = 8" and cl: "off \<le> 1600 * Microsecond"
    and qs: "\<forall>p\<in>set qs. snd p \<le> 1600 * Microsecond"
    by auto
  have part: "feed hexbug_HandleTimePair \<lparr>rcvbuf = 0, hexbug_bitcount = 0, parity = False\<rparr> qs =
         Inr (\<lparr>rcvbuf = horner_sum of_bool 2 (map (\<lambda>p. 750 * Microsecond < snd p) qs),
                hexbug_bitcount = int (length qs),
                parity = odd (length (filter (\<lambda>p. 750 * Microsecond < snd p) qs))\<rparr>, [])"
    using len qs by (intro hexbug_feed_partial) auto
  show ?thesis
    using len cl
    by (simp add: ps q feed_append part hexbug_bit_def horner_snoc_word)
qed

text \<open>
  Claim C3. From the reset state, nine pairs none of which is a start of frame (second
  duration at most 1600 us) call the handler exactly once when the number of pairs read
  as 1 (second duration above 750 us) is odd, and not at all when it is even; either way
  the accumulator, the bit counter and the parity flag are zero after the ninth pair.
\<close>

theorem hexbug_parity_acceptance:
  assumes "length ps = 9" "\<forall>p\<in>set ps. snd p \<le> 1600 * Microsecond"
  shows "\<exists>out. feed hexbug_HandleTimePair hexbug_NewStateMachine ps =
            Inr (\<lparr>rcvbuf = 0, hexbug_bitcount = 0, parity = False\<rparr>, out) \<and>
          (if odd (length (filter (\<lambda>p. 750 * Microsecond < snd p) ps))
           then length out = 1 else out = [])"
  using hexbug_feed_frame[OF assms] by (simp add: hexbug_NewStateMachine_def)

theorem hexbug_parity_acceptance_witness:
  "(\<exists>out. feed hexbug_HandleTimePair hexbug_NewStateMachine
       [(350000, 1000000), (350000, 350000), (350000, 1000000), (350000, 350000), (350000, 350000),
        (350000, 350000), (350000, 1000000), (350000, 350000), (350000, 350000)] =
            Inr (\<lparr>rcvbuf = 0, hexbug_bitcount = 0, parity = False\<rparr>, out) \<and> length out = 1) \<and>
   (\<exists>out. feed hexbug_HandleTimePair hexbug_NewStateMachine
       [(350000, 1000000), (350000, 350000), (350000, 1000000), (350000, 350000), (350000, 350000),
        (350000, 350000), (350000, 1000000), (350000, 350000), (350000, 1000000)] =
            Inr (\<lparr>rcvbuf = 0, hexbug_bitcount = 0, parity = False\<rparr>, out) \<and> out = [])"
proof -
  let ?odd = "[(350000, 1000000), (350000, 350000), (350000, 1000000), (350000, 350000), (350000, 350000),
        (350000, 350000), (350000, 1000000), (350000, 350000), (350000, 350000)] :: TimePair list"
  let ?even = "[(350000, 1000000), (350000, 350000), (350000, 1000000), (350000, 350000), (350000, 350000),
        (350000, 350000), (350000, 1000000), (350000, 350000), (350000, 1000000)] :: TimePair list"
  have l1: "length ?odd = 9" and l2: "length ?even = 9" by simp_all
  have b1: "\<forall>p\<in>set ?odd. snd p \<le> 1600 * Microsecond"
    and b2: "\<forall>p\<in>set ?even. snd p \<le> 1600 * Microsecond" by simp_all
  from hexbug_parity_acceptance[OF l1 b1] hexbug_parity_acceptance[OF l2 b2]
  show ?thesis by (simp del: feed.simps hexbug_HandleTimePair.simps)
qed

text \<open>
  Claim C4, as stated, fails: eight zero pairs followed by a one pair form a frame of odd
  parity, and the value handed over is 256, which is the ninth received bit (the parity
  bit) alone.
\<close>

theorem hexbug_parity_bit_delivered:
  "feed hexbug_HandleTimePair hexbug_NewStateMachine
     (replicate 8 (350 * Microsecond, 350 * Microsecond) @ [(350 * Microsecond, 1000 * Microsecond)]) =
   Inr (hexbug_NewStateMachine, [256]) \<and> bit (256 :: 16 word) 8 \<and> (256 :: 16 word) AND 255 = 0"
  by code_simp

text \<open>
  Claim C4, amended. The value handed over for an accepted frame is the whole accumulator:
  bit \<open>i\<close> is set precisely when \<open>i < 9\<close> and pair \<open>i\<close> was read as 1. Bits 0 to 7 are
  the button mask and the channel, bit 8 is the received parity bit, the bits above are 0.
\<close>

theorem hexbug_delivers_nine_bits:
  assumes "length ps = 9" "\<forall>p\<in>set ps. snd p \<le> 1600 * Microsecond"
    "odd (length (filter (\<lambda>p. 750 * Microsecond < snd p) ps))"
  shows "\<exists>v. feed hexbug_HandleTimePair hexbug_NewStateMachine ps = Inr (hexbug_NewStateMachine, [v]) \<and>
          (\<forall>i. bit v i \<longleftrightarrow> i < 9 \<and> 750 * Microsecond < snd (ps ! i))"
proof -
  let ?v = "horner_sum of_bool 2 (map (\<lambda>p. 750 * Microsecond < snd p) ps) :: 16 word"
  have run: "feed hexbug_HandleTimePair hexbug_NewStateMachine ps = Inr (hexbug_NewStateMachine, [?v])"
    using hexbug_feed_frame[OF assms(1,2)] assms(3) by (simp add: hexbug_NewStateMachine_def)
  have bits: "\<forall>i. bit ?v i \<longleftrightarrow> i < 9 \<and> 750 * Microsecond < snd (ps ! i)"
    using assms(1) by (auto simp: bit_simps)
  from run bits show ?thesis by blast
qed

theorem hexbug_delivers_nine_bits_witness:
  "odd (length (filter (\<lambda>p. 750 * Microsecond < snd p)
       [(350000, 1000000), (350000, 350000), (350000, 1000000), (350000, 350000), (350000, 350000),
        (350000, 350000), (350000, 350000), (350000, 350000), (350000 :: int, 1000000 :: int)])) \<and>
   (\<exists>v. feed hexbug_HandleTimePair hexbug_NewStateMachine
       [(350000, 1000000), (350000, 350000), (350000, 1000000), (350000, 350000), (350000, 350000),
        (350000, 350000), (350000, 350000), (350000, 350000), (350000, 1000000)] =
          Inr (hexbug_NewStateMachine, [v]) \<and>
        bit v 0 \<and> \<not> bit v 1 \<and> bit v 2 \<and> \<not> bit v 7 \<and> bit v 8 \<and> \<not> bit v 9)"
proof -
  let ?ps = "[(350000, 1000000), (350000, 350000), (350000, 1000000), (350000, 350000), (350000, 350000),
        (350000, 350000), (350000, 350000), (350000, 350000), (350000, 1000000)] :: TimePair list"
  have l: "length ?ps = 9" by simp
  have b: "\<forall>p\<in>set ?ps. snd p \<le> 1600 * Microsecond" by simp
  have o: "odd (length (filter (\<lambda>p. 750 * Microsecond < snd p) ?ps))" by simp
  from hexbug_delivers_nine_bits[OF l b o] o
  show ?thesis by (auto simp del: feed.simps hexbug_HandleTimePair.simps)
qed

section \<open>Addressed 32-bit code: frames\<close>

lemma low16_mask: "(0xFFFF :: 32 word) = mask 16"
  by (simp add: mask_eq_exp_minus_1)

lemma uint_low16: "uint (ucast ((v :: 32 word) AND 0xFFFF) :: 16 word) = uint v mod 2 ^ 16"
proof -
  have "(ucast (v AND 0xFFFF) :: 16 word) = ucast v"
    unfolding low16_mask by (rule bit_eqI) (auto simp: bit_simps)
  then show ?thesis by (simp add: unsigned_ucast_eq take_bit_eq_mod)
qed

lemma div_mod_high16:
  "0 \<le> (x::int) \<Longrightarrow> x < 4294967296 \<Longrightarrow> x div 65536 mod 65536 = x div 65536"
  by simp

lemma uint_high16: "uint (ucast (drop_bit 16 (v :: 32 word) AND 0xFFFF) :: 16 word) = uint v div 2 ^ 16"
proof -
  have e: "(ucast (drop_bit 16 v AND 0xFFFF) :: 16 word) = ucast (drop_bit 16 v)"
    unfolding low16_mask by (rule bit_eqI) (auto simp: bit_simps)
  have d: "uint (drop_bit 16 v) = uint v div 65536"
    by (simp add: drop_bit_eq_div uint_div_distrib)
  have m: "uint v div 65536 mod 65536 = uint v div 65536"
    using div_mod_high16[of "uint v"] uint_lt2p[of v] by simp
  have "uint (ucast (drop_bit 16 v) :: 16 word) = uint (drop_bit 16 v) mod 65536"
    by (simp add: unsigned_ucast_eq take_bit_eq_mod del: drop_bit_eq_div)
  with e d m show ?thesis
    by simp
qed

text \<open>
  Claim C2. For every raw value \<open>v\<close>: on a nil frame \<^verbatim>\<open>UnmarshalFrame\<close> returns
  \<^verbatim>\<open>ErrFrameAlloc\<close> and there is no frame afterwards; on an allocated frame it returns
  no error, the address is the low 16 bits of \<open>v\<close> and the command the high 16 bits.
\<close>

theorem UnmarshalFrame_nil_or_split:
  "UnmarshalFrame None v = (None, Some ErrFrameAlloc) \<and>
   (\<exists>f'. UnmarshalFrame (Some f) v = (Some f', None) \<and>
      uint (Addr f') = uint v mod 2 ^ 16 \<and> uint (Cmd f') = uint v div 2 ^ 16)"
proof -
  let ?f' = "f\<lparr>Addr := ucast (v AND 0xFFFF), Cmd := ucast (drop_bit 16 v AND 0xFFFF)\<rparr>"
  have nil: "UnmarshalFrame None v = (None, Some ErrFrameAlloc)"
    by (simp add: UnmarshalFrame_def)
  have alloc: "UnmarshalFrame (Some f) v = (Some ?f', None)"
    by (simp add: UnmarshalFrame_def)
  have lo: "uint (Addr ?f') = uint v mod 2 ^ 16"
    using uint_low16[of v] by simp
  have hi: "uint (Cmd ?f') = uint v div 2 ^ 16"
    using uint_high16[of v] by simp
  from nil alloc lo hi show ?thesis by blast
qed

text \<open>
  Claim C1. The frame with address 0x1234 and command 0x5678 marshals to 34 pairs. Fed in
  order to a new state machine they call the handler once, but with address 1 and command
  0: the start pair has a second duration of exactly 3 ms, which is not above the start
  threshold, so it is counted as a first bit 1; and the zero pair and the one pair have
  the same first duration, the only one the decoder reads a bit from. The counter ends at
  34, so the result is the same on a 32-bit and on a 64-bit \<^verbatim>\<open>int\<close>.
\<close>

theorem samsung_roundtrip_evaluation:
  "length (MarshalFrame \<lparr>Addr = 0x1234, Cmd = 0x5678\<rparr>) = 34 \<and>
   feed (samsung_HandleTimePair 32) samsung_NewStateMachine (MarshalFrame \<lparr>Addr = 0x1234, Cmd = 0x5678\<rparr>) =
     Inr (\<lparr>samsung_buf = 1, samsung_bitcount = 34\<rparr>, [\<lparr>Addr = 1, Cmd = 0\<rparr>]) \<and>
   feed (samsung_HandleTimePair 64) samsung_NewStateMachine (MarshalFrame \<lparr>Addr = 0x1234, Cmd = 0x5678\<rparr>) =
     Inr (\<lparr>samsung_buf = 1, samsung_bitcount = 34\<rparr>, [\<lparr>Addr = 1, Cmd = 0\<rparr>])"
  by code_simp

text \<open>
  Claim C8, as stated, fails: the decoder compares the first duration of the pair with
  200 ms, not the second. A pair with a second duration of 201 ms and a first duration of
  4 ms is a start of frame and clears the accumulator and the counter.
\<close>

theorem samsung_long_off_resets:
  "samsung_HandleTimePair 32 \<lparr>samsung_buf = 1, samsung_bitcount = 1\<rparr> (4 * Millisecond, 201 * Millisecond) =
     Inr (\<lparr>samsung_buf = 0, samsung_bitcount = 0\<rparr>, []) \<and>
   samsung_HandleTimePair 64 \<lparr>samsung_buf = 1, samsung_bitcount = 1\<rparr> (4 * Millisecond, 201 * Millisecond) =
     Inr (\<lparr>samsung_buf = 0, samsung_bitcount = 0\<rparr>, [])"
  by simp

text \<open>
  Claim C8, amended. A pair whose first duration exceeds 200 ms is ignored: the state is
  unchanged and the handler is not called. A pair whose second duration exceeds 200 ms
  while the first does not is handled as a start of frame: the handler is not called, and
  the accumulator and the counter are cleared when the first duration exceeds 3 ms and
  unchanged otherwise.
\<close>

theorem samsung_repeat_band:
  "(on > 200 * Millisecond \<longrightarrow> samsung_HandleTimePair w sm (on, off) = Inr (sm, [])) \<and>
   (on \<le> 200 * Millisecond \<and> off > 200 * Millisecond \<longrightarrow>
      samsung_HandleTimePair w sm (on, off) =
        Inr (if on > 3 * Millisecond then sm\<lparr>samsung_buf := 0, samsung_bitcount := 0\<rparr> else sm, []))"
  by simp

theorem samsung_repeat_band_witness:
  "samsung_HandleTimePair 32 \<lparr>samsung_buf = 1, samsung_bitcount = 1\<rparr> (201 * Millisecond, 2 * Millisecond) =
     Inr (\<lparr>samsung_buf = 1, samsung_bitcount = 1\<rparr>, []) \<and>
   samsung_HandleTimePair 32 \<lparr>samsung_buf = 1, samsung_bitcount = 1\<rparr> (2 * Millisecond, 201 * Millisecond) =
     Inr (\<lparr>samsung_buf = 1, samsung_bitcount = 1\<rparr>, [])"
proof -
  have h1: "(201 * Millisecond :: int) > 200 * Millisecond" by simp
  have h2: "(2 * Millisecond :: int) \<le> 200 * Millisecond \<and> (201 * Millisecond :: int) > 200 * Millisecond" by simp
  from samsung_repeat_band[of "201 * Millisecond" 32 "\<lparr>samsung_buf = 1, samsung_bitcount = 1\<rparr>" "2 * Millisecond"] h1
  have a: "samsung_HandleTimePair 32 \<lparr>samsung_buf = 1, samsung_bitcount = 1\<rparr> (201 * Millisecond, 2 * Millisecond) =
     Inr (\<lparr>samsung_buf = 1, samsung_bitcount = 1\<rparr>, [])" by blast
  from samsung_repeat_band[of "2 * Millisecond" 32 "\<lparr>samsung_buf = 1, samsung_bitcount = 1\<rparr>" "201 * Millisecond"] h2
  have b: "samsung_HandleTimePair 32 \<lparr>samsung_buf = 1, samsung_bitcount = 1\<rparr> (2 * Millisecond, 201 * Millisecond) =
     Inr (\<lparr>samsung_buf = 1, samsung_bitcount = 1\<rparr>, [])" by (simp del: samsung_HandleTimePair.simps)
  from a b show ?thesis by blast
qed

section \<open>Proportional multichannel code: staleness\<close>

lemma ppm_step_nonmarker:
  assumes "on \<le> minimumTimeBetweenFrames" "0 \<le> ppm_currentCh sm" "ppm_currentCh sm \<le> 16"
  shows "\<exists>sm'. ppm_HandleTimePair now sm (on, off) = Inr sm' \<and> ppm_last sm' = ppm_last sm \<and>
           ppm_Timeout sm' = ppm_Timeout sm \<and> ppm_safeChannels sm' = ppm_safeChannels sm \<and>
           0 \<le> ppm_currentCh sm' \<and> ppm_currentCh sm' \<le> 16"
  using assms by simp

lemma ppm_feed_nonmarkers:
  assumes "\<forall>x\<in>set ps. fst (snd x) \<le> minimumTimeBetweenFrames"
    "0 \<le> ppm_currentCh sm" "ppm_currentCh sm \<le> 16"
  shows "\<exists>sm'. ppm_feed ppm_HandleTimePair sm ps = Inr sm' \<and> ppm_last sm' = ppm_last sm \<and>
           ppm_Timeout sm' = ppm_Timeout sm \<and> ppm_safeChannels sm' = ppm_safeChannels sm"
  using assms
proof (induction ps arbitrary: sm)
  case Nil
  then show ?case by simp
next
  case (Cons x ps)
  obtain now on off where x: "x = (now, (on, off))" by (cases x) auto
  from Cons.prems x have nm: "on \<le> minimumTimeBetweenFrames" by simp
  from ppm_step_nonmarker[OF nm Cons.prems(2,3), of now off] obtain sm1 where
    st: "ppm_HandleTimePair now sm (on, off) = Inr sm1" and
    keep: "ppm_last sm1 = ppm_last sm" "ppm_Timeout sm1 = ppm_Timeout sm"
          "ppm_safeChannels sm1 = ppm_safeChannels sm" and
    rng: "0 \<le> ppm_currentCh sm1" "ppm_currentCh sm1 \<le> 16" by blast
  from Cons.IH[OF _ rng] Cons.prems(1) obtain sm' where
    "ppm_feed ppm_HandleTimePair sm1 ps = Inr sm'" "ppm_last sm' = ppm_last sm1"
    "ppm_Timeout sm' = ppm_Timeout sm1" "ppm_safeChannels sm' = ppm_safeChannels sm1" by auto
  with st keep show ?case by (simp add: x del: ppm_HandleTimePair.simps)
qed

lemma ppm_feed_after_marker:
  assumes "on > minimumTimeBetweenFrames" "\<forall>x\<in>set ps. fst (snd x) \<le> minimumTimeBetweenFrames"
  shows "\<exists>sm'. ppm_feed ppm_HandleTimePair sm ((t, (on, off)) # ps) = Inr sm' \<and> ppm_last sm' = t \<and>
           ppm_Timeout sm' = ppm_Timeout sm \<and> ppm_safeChannels sm' = ppm_safeChannels sm"
proof -
  let ?sm1 = "sm\<lparr>ppm_last := t, ppm_currentCh := 0\<rparr>"
  have st: "ppm_HandleTimePair t sm (on, off) = Inr ?sm1" using assms(1) by simp
  from ppm_feed_nonmarkers[OF assms(2), of ?sm1] obtain sm' where
    "ppm_feed ppm_HandleTimePair ?sm1 ps = Inr sm'" "ppm_last sm' = ppm_last ?sm1"
    "ppm_Timeout sm' = ppm_Timeout ?sm1" "ppm_safeChannels sm' = ppm_safeChannels ?sm1" by auto
  with st show ?thesis by (simp del: ppm_HandleTimePair.simps)
qed

lemma ppm_feed_channels:
  assumes "\<forall>x\<in>set ps. fst (snd x) \<le> minimumTimeBetweenFrames"
    "\<not> time_IsZero (ppm_last sm)" "0 \<le> ppm_currentCh sm"
    "nat (ppm_currentCh sm) + length ps \<le> 16" "length (ppm_channels sm) = 16"
  shows "\<exists>sm'. ppm_feed ppm_HandleTimePair sm ps = Inr sm' \<and>
           ppm_last sm' = ppm_last sm \<and> ppm_Timeout sm' = ppm_Timeout sm \<and>
           ppm_safeChannels sm' = ppm_safeChannels sm \<and>
           (\<forall>j < nat (ppm_currentCh sm). ppm_channels sm' ! j = ppm_channels sm ! j) \<and>
           (\<forall>i < length ps. ppm_channels sm' ! (nat (ppm_currentCh sm) + i) =
              Duration_Round (wrap64 (fst (snd (ps ! i)) + snd (snd (ps ! i)))) (10 * Microsecond))"
  using assms
proof (induction ps arbitrary: sm)
  case Nil
  then show ?case by simp
next
  case (Cons x ps)
  obtain now on off where x: "x = (now, (on, off))" by (cases x) auto
  let ?k = "nat (ppm_currentCh sm)"
  let ?v = "Duration_Round (wrap64 (on + off)) (10 * Microsecond)"
  let ?sm1 = "sm\<lparr>ppm_channels := (ppm_channels sm)[?k := ?v], ppm_currentCh := ppm_currentCh sm + 1\<rparr>"
  from Cons.prems x have nm: "on \<le> minimumTimeBetweenFrames" by simp
  from Cons.prems have k: "?k < 16" by simp
  have st: "ppm_HandleTimePair now sm (on, off) = Inr ?sm1"
    using nm Cons.prems(2,3) k by simp
  have k1: "nat (ppm_currentCh ?sm1) = Suc ?k" using Cons.prems(3) by simp
  have p1: "\<forall>x\<in>set ps. fst (snd x) \<le> minimumTimeBetweenFrames" using Cons.prems(1) by simp
  have p2: "\<not> time_IsZero (ppm_last ?sm1)" using Cons.prems(2) by simp
  have p3: "0 \<le> ppm_currentCh ?sm1" using Cons.prems(3) by simp
  have p4: "nat (ppm_currentCh ?sm1) + length ps \<le> 16" using Cons.prems(4) k1 by simp
  have p5: "length (ppm_channels ?sm1) = 16" using Cons.prems(5) by simp
  from Cons.IH[OF p1 p2 p3 p4 p5] obtain sm' where
    r: "ppm_feed ppm_HandleTimePair ?sm1 ps = Inr sm'" and
    keep: "ppm_last sm' = ppm_last ?sm1" "ppm_Timeout sm' = ppm_Timeout ?sm1"
          "ppm_safeChannels sm' = ppm_safeChannels ?sm1" and
    low: "\<forall>j < nat (ppm_currentCh ?sm1). ppm_channels sm' ! j = ppm_channels ?sm1 ! j" and
    new: "\<forall>i < length ps. ppm_channels sm' ! (nat (ppm_currentCh ?sm1) + i) =
              Duration_Round (wrap64 (fst (snd (ps ! i)) + snd (snd (ps ! i)))) (10 * Microsecond)"
    by blast
  have feed: "ppm_feed ppm_HandleTimePair sm (x # ps) = Inr sm'"
    using st r by (simp add: x del: ppm_HandleTimePair.simps)
  have low': "\<forall>j < ?k. ppm_channels sm' ! j = ppm_channels sm ! j"
    using low k1 by simp
  have at_k: "ppm_channels sm' ! ?k = ?v"
    using low k1 k Cons.prems(5) by simp
  have new': "\<forall>i < length (x # ps). ppm_channels sm' ! (?k + i) =
      Duration_Round (wrap64 (fst (snd ((x # ps) ! i)) + snd (snd ((x # ps) ! i)))) (10 * Microsecond)"
  proof (intro allI impI)
    fix i assume "i < length (x # ps)"
    then show "ppm_channels sm' ! (?k + i) =
      Duration_Round (wrap64 (fst (snd ((x # ps) ! i)) + snd (snd ((x # ps) ! i)))) (10 * Microsecond)"
      using at_k new k1 by (cases i) (simp_all add: x)
  qed
  from feed keep low' new' show ?case by simp
qed

lemma ppm_feed_frame_channels:
  assumes "on > minimumTimeBetweenFrames" "t \<noteq> 0"
    "\<forall>x\<in>set ps. fst (snd x) \<le> minimumTimeBetweenFrames"
    "length ps \<le> 16" "length (ppm_channels sm) = 16"
  shows "\<exists>sm'. ppm_feed ppm_HandleTimePair sm ((t, (on, off)) # ps) = Inr sm' \<and>
           ppm_last sm' = t \<and> ppm_Timeout sm' = ppm_Timeout sm \<and>
           ppm_safeChannels sm' = ppm_safeChannels sm \<and>
           (\<forall>i < length ps. ppm_channels sm' ! i =
              Duration_Round (wrap64 (fst (snd (ps ! i)) + snd (snd (ps ! i)))) (10 * Microsecond))"
proof -
  let ?sm1 = "sm\<lparr>ppm_last := t, ppm_currentCh := 0\<rparr>"
  have st: "ppm_HandleTimePair t sm (on, off) = Inr ?sm1" using assms(1) by simp
  have "\<exists>sm'. ppm_feed ppm_HandleTimePair ?sm1 ps = Inr sm' \<and>
           ppm_last sm' = ppm_last ?sm1 \<and> ppm_Timeout sm' = ppm_Timeout ?sm1 \<and>
           ppm_safeChannels sm' = ppm_safeChannels ?sm1 \<and>
           (\<forall>j < nat (ppm_currentCh ?sm1). ppm_channels sm' ! j = ppm_channels ?sm1 ! j) \<and>
           (\<forall>i < length ps. ppm_channels sm' ! (nat (ppm_currentCh ?sm1) + i) =
              Duration_Round (wrap64 (fst (snd (ps ! i)) + snd (snd (ps ! i)))) (10 * Microsecond))"
    using assms by (intro ppm_feed_channels) (simp_all add: time_IsZero_def)
  then obtain sm' where "ppm_feed ppm_HandleTimePair ?sm1 ps = Inr sm'"
    "ppm_last sm' = t" "ppm_Timeout sm' = ppm_Timeout sm" "ppm_safeChannels sm' = ppm_safeChannels sm"
    "\<forall>i < length ps. ppm_channels sm' ! i =
        Duration_Round (wrap64 (fst (snd (ps ! i)) + snd (snd (ps ! i)))) (10 * Microsecond)"
    by auto
  with st show ?thesis by (simp del: ppm_HandleTimePair.simps)
qed

text \<open>
  Claim C5. For a channel index from 0 to 15: when the time since the recorded time stamp
  exceeds \<^verbatim>\<open>Timeout\<close>, \<^verbatim>\<open>Channel\<close> returns the safe value of that channel and
  \<^verbatim>\<open>Channels\<close> the whole safe array, and otherwise both return the stored channels. The
  time stamp is the clock reading of the last synchronisation marker: after a marker at
  time \<open>t\<close> and any pairs that are not markers, the time stamp is \<open>t\<close> and the timeout and
  the safe values are as before. And the stored channels are the decoded ones: after a
  marker at a time \<open>t\<close> that is not the zero time and at most 16 channel pairs,
  \<^verbatim>\<open>Channel\<close> of a channel that was sent returns its safe value when more than
  \<^verbatim>\<open>Timeout\<close> has passed since \<open>t\<close>, and otherwise the rounded sum of the two durations
  of that channel's pair.
\<close>

theorem ppm_staleness_fallback:
  assumes "0 \<le> ch" "ch < 16"
  shows "Channel now sm ch =
           Inr (if time_Since now (ppm_last sm) > ppm_Timeout sm
                then ppm_safeChannels sm ! nat ch else ppm_channels sm ! nat ch) \<and>
         Channels now sm =
           (if time_Since now (ppm_last sm) > ppm_Timeout sm
            then ppm_safeChannels sm else ppm_channels sm) \<and>
         (on > minimumTimeBetweenFrames \<and> (\<forall>x\<in>set ps. fst (snd x) \<le> minimumTimeBetweenFrames) \<longrightarrow>
            (\<exists>sm'. ppm_feed ppm_HandleTimePair sm ((t, (on, off)) # ps) = Inr sm' \<and> ppm_last sm' = t \<and>
               ppm_Timeout sm' = ppm_Timeout sm \<and> ppm_safeChannels sm' = ppm_safeChannels sm)) \<and>
         (on > minimumTimeBetweenFrames \<and> (\<forall>x\<in>set ps. fst (snd x) \<le> minimumTimeBetweenFrames) \<and>
          t \<noteq> 0 \<and> nat ch < length ps \<and> length ps \<le> 16 \<and> length (ppm_channels sm) = 16 \<longrightarrow>
            (\<exists>sm'. ppm_feed ppm_HandleTimePair sm ((t, (on, off)) # ps) = Inr sm' \<and>
               Channel now sm' ch =
                 Inr (if time_Since now t > ppm_Timeout sm then ppm_safeChannels sm ! nat ch
                      else Duration_Round (wrap64 (fst (snd (ps ! nat ch)) + snd (snd (ps ! nat ch))))
                             (10 * Microsecond))))"
proof -
  have acc: "Channel now s ch =
           Inr (if time_Since now (ppm_last s) > ppm_Timeout s
                then ppm_safeChannels s ! nat ch else ppm_channels s ! nat ch)" for s
    using assms by (simp add: Channel_def IsSafe_def index16_def)
  have all: "Channels now sm =
           (if time_Since now (ppm_last sm) > ppm_Timeout sm
            then ppm_safeChannels sm else ppm_channels sm)"
    by (simp add: Channels_def IsSafe_def)
  have stamp: "on > minimumTimeBetweenFrames \<and> (\<forall>x\<in>set ps. fst (snd x) \<le> minimumTimeBetweenFrames) \<longrightarrow>
            (\<exists>sm'. ppm_feed ppm_HandleTimePair sm ((t, (on, off)) # ps) = Inr sm' \<and> ppm_last sm' = t \<and>
               ppm_Timeout sm' = ppm_Timeout sm \<and> ppm_safeChannels sm' = ppm_safeChannels sm)"
    using ppm_feed_after_marker[of on ps sm t off] by blast
  have live: "\<exists>sm'. ppm_feed ppm_HandleTimePair sm ((t, (on, off)) # ps) = Inr sm' \<and>
               Channel now sm' ch =
                 Inr (if time_Since now t > ppm_Timeout sm then ppm_safeChannels sm ! nat ch
                      else Duration_Round (wrap64 (fst (snd (ps ! nat ch)) + snd (snd (ps ! nat ch))))
                             (10 * Microsecond))"
    if h: "on > minimumTimeBetweenFrames" "\<forall>x\<in>set ps. fst (snd x) \<le> minimumTimeBetweenFrames"
      "t \<noteq> 0" "nat ch < length ps" "length ps \<le> 16" "length (ppm_channels sm) = 16"
  proof -
    from ppm_feed_frame_channels[OF h(1,3,2,5,6), of off] obtain sm' where
      r: "ppm_feed ppm_HandleTimePair sm ((t, (on, off)) # ps) = Inr sm'"
         "ppm_last sm' = t" "ppm_Timeout sm' = ppm_Timeout sm" "ppm_safeChannels sm' = ppm_safeChannels sm"
      and d: "\<forall>i < length ps. ppm_channels sm' ! i =
              Duration_Round (wrap64 (fst (snd (ps ! i)) + snd (snd (ps ! i)))) (10 * Microsecond)"
      by blast
    from d h(4) have "ppm_channels sm' ! nat ch =
        Duration_Round (wrap64 (fst (snd (ps ! nat ch)) + snd (snd (ps ! nat ch)))) (10 * Microsecond)"
      by blast
    with r acc[of sm'] show ?thesis by (simp del: ppm_feed.simps)
  qed
  from acc[of sm] all stamp live show ?thesis by blast
qed

theorem ppm_staleness_fallback_witness:
  "Channel (5000 + 600 * Millisecond)
      (ppm_NewStateMachine\<lparr>ppm_channels := (ppm_channels ppm_NewStateMachine)[0 := 1200000],
                             ppm_currentCh := 1, ppm_last := 5000\<rparr>) 0 = Inr 1200000 \<and>
   Channel (5001 + 600 * Millisecond)
      (ppm_NewStateMachine\<lparr>ppm_channels := (ppm_channels ppm_NewStateMachine)[0 := 1200000],
                             ppm_currentCh := 1, ppm_last := 5000\<rparr>) 0 = Inr 1500000 \<and>
   (\<exists>sm'. ppm_feed ppm_HandleTimePair ppm_NewStateMachine
             [(5000, (7 * Millisecond, 400 * Microsecond)), (6000, (Millisecond, 204 * Microsecond))] = Inr sm' \<and>
          ppm_last sm' = 5000) \<and>
   (\<exists>sm'. ppm_feed ppm_HandleTimePair ppm_NewStateMachine
             [(5000, (7 * Millisecond, 400 * Microsecond)), (6000, (Millisecond, 204 * Microsecond))] = Inr sm' \<and>
          Channel (5000 + 600 * Millisecond) sm' 0 = Inr 1200000) \<and>
   (\<exists>sm'. ppm_feed ppm_HandleTimePair ppm_NewStateMachine
             [(5000, (7 * Millisecond, 400 * Microsecond)), (6000, (Millisecond, 204 * Microsecond))] = Inr sm' \<and>
          Channel (5001 + 600 * Millisecond) sm' 0 = Inr 1500000)"
proof -
  let ?sm = "ppm_NewStateMachine\<lparr>ppm_channels := (ppm_channels ppm_NewStateMachine)[0 := 1200000],
                             ppm_currentCh := 1, ppm_last := 5000\<rparr>"
  let ?ps = "[(6000, (Millisecond, 204 * Microsecond))] :: (Time \<times> TimePair) list"
  have r: "(0::int) \<le> 0" "(0::int) < 16" by simp_all
  have live: "Channel (5000 + 600 * Millisecond) ?sm 0 = Inr 1200000"
    using ppm_staleness_fallback[OF r, of "5000 + 600 * Millisecond" ?sm]
    by (simp add: time_Since_def minDuration_def maxDuration_def ppm_NewStateMachine_def
        minimumTimeBetweenFrames_def SafeChannelsMid_def)
  have stale: "Channel (5001 + 600 * Millisecond) ?sm 0 = Inr 1500000"
    using ppm_staleness_fallback[OF r, of "5001 + 600 * Millisecond" ?sm]
    by (simp add: time_Since_def minDuration_def maxDuration_def ppm_NewStateMachine_def
        minimumTimeBetweenFrames_def SafeChannelsMid_def)
  have m: "7 * Millisecond > minimumTimeBetweenFrames \<and>
      (\<forall>x\<in>set ?ps. fst (snd x) \<le> minimumTimeBetweenFrames)"
    by (simp add: minimumTimeBetweenFrames_def)
  have m': "(5000 :: Time) \<noteq> 0 \<and> nat 0 < length ?ps \<and> length ?ps \<le> 16 \<and>
      length (ppm_channels ppm_NewStateMachine) = 16"
    by (simp add: ppm_NewStateMachine_def SafeChannelsMid_def)
  have v: "Duration_Round (wrap64 (fst (snd (?ps ! nat 0)) + snd (snd (?ps ! nat 0)))) (10 * Microsecond) = 1200000"
    by (simp add: Duration_Round_def wrap64_def)
  have t1: "\<not> time_Since (5000 + 600 * Millisecond) 5000 > ppm_Timeout ppm_NewStateMachine"
    and t2: "time_Since (5001 + 600 * Millisecond) 5000 > ppm_Timeout ppm_NewStateMachine"
    and sv: "ppm_safeChannels ppm_NewStateMachine ! nat 0 = 1500000"
    by (simp_all add: time_Since_def minDuration_def maxDuration_def ppm_NewStateMachine_def
        minimumTimeBetweenFrames_def SafeChannelsMid_def)
  have fed: "\<exists>sm'. ppm_feed ppm_HandleTimePair ppm_NewStateMachine
             ((5000, (7 * Millisecond, 400 * Microsecond)) # ?ps) = Inr sm' \<and> ppm_last sm' = 5000"
    using ppm_staleness_fallback[OF r, of _ ppm_NewStateMachine "7 * Millisecond" ?ps 5000 "400 * Microsecond"] m
    by blast
  have fed_live: "\<exists>sm'. ppm_feed ppm_HandleTimePair ppm_NewStateMachine
             ((5000, (7 * Millisecond, 400 * Microsecond)) # ?ps) = Inr sm' \<and>
          Channel (5000 + 600 * Millisecond) sm' 0 = Inr 1200000"
    using ppm_staleness_fallback[OF r, of "5000 + 600 * Millisecond" ppm_NewStateMachine "7 * Millisecond" ?ps 5000 "400 * Microsecond"]
      m m' t1 unfolding v by (simp only: if_False) blast
  have fed_stale: "\<exists>sm'. ppm_feed ppm_HandleTimePair ppm_NewStateMachine
             ((5000, (7 * Millisecond, 400 * Microsecond)) # ?ps) = Inr sm' \<and>
          Channel (5001 + 600 * Millisecond) sm' 0 = Inr 1500000"
    using ppm_staleness_fallback[OF r, of "5001 + 600 * Millisecond" ppm_NewStateMachine "7 * Millisecond" ?ps 5000 "400 * Microsecond"]
      m m' t2 unfolding sv by (simp only: if_True sv) blast
  from live stale fed fed_live fed_stale show ?thesis by blast
qed

section \<open>Bounds on counters, accumulators and channels\<close>

lemma hexbug_step_bounded:
  assumes "0 \<le> hexbug_bitcount hb" "hexbug_bitcount hb < 9" "take_bit 9 (rcvbuf hb) = rcvbuf hb"
  shows "\<exists>hb' out. hexbug_HandleTimePair hb p = Inr (hb', out) \<and>
           0 \<le> hexbug_bitcount hb' \<and> hexbug_bitcount hb' < 9 \<and>
           take_bit 9 (rcvbuf hb') = rcvbuf hb' \<and> (\<forall>v\<in>set out. take_bit 9 v = v)"
proof -
  obtain on off where p: "p = (on, off)" by (cases p)
  have pb: "take_bit 9 (push_bit (nat (hexbug_bitcount hb)) (1 :: 16 word)) =
            push_bit (nat (hexbug_bitcount hb)) 1"
    using assms(1,2) by (intro bit_eqI) (auto simp: bit_simps simp del: push_bit_of_1)
  have orb: "take_bit 9 (rcvbuf hb OR push_bit (nat (hexbug_bitcount hb)) 1) =
             rcvbuf hb OR push_bit (nat (hexbug_bitcount hb)) 1"
    by (simp only: take_bit_or pb assms(3))
  show ?thesis
    using assms orb by (auto simp: p hexbug_bit_def Let_def simp del: push_bit_of_1)
qed

lemma hexbug_feed_bounded:
  assumes "0 \<le> hexbug_bitcount hb" "hexbug_bitcount hb < 9" "take_bit 9 (rcvbuf hb) = rcvbuf hb"
  shows "\<exists>hb' out. feed hexbug_HandleTimePair hb ps = Inr (hb', out) \<and>
           0 \<le> hexbug_bitcount hb' \<and> hexbug_bitcount hb' < 9 \<and>
           take_bit 9 (rcvbuf hb') = rcvbuf hb' \<and> (\<forall>v\<in>set out. take_bit 9 v = v)"
  using assms
proof (induction ps arbitrary: hb)
  case Nil
  then show ?case by simp
next
  case (Cons p ps)
  from hexbug_step_bounded[OF Cons.prems, of p] obtain hb1 out1 where
    st: "hexbug_HandleTimePair hb p = Inr (hb1, out1)" and
    inv: "0 \<le> hexbug_bitcount hb1" "hexbug_bitcount hb1 < 9" "take_bit 9 (rcvbuf hb1) = rcvbuf hb1" and
    o1: "\<forall>v\<in>set out1. take_bit 9 v = v" by blast
  from Cons.IH[OF inv] obtain hb' out' where
    r: "feed hexbug_HandleTimePair hb1 ps = Inr (hb', out')"
       "0 \<le> hexbug_bitcount hb'" "hexbug_bitcount hb' < 9" "take_bit 9 (rcvbuf hb') = rcvbuf hb'"
       "\<forall>v\<in>set out'. take_bit 9 v = v" by blast
  show ?case using st o1 r by (auto simp del: hexbug_HandleTimePair.simps)
qed

lemma ppm_step_bounded:
  assumes "length (ppm_channels sm) = 16" "0 \<le> ppm_currentCh sm" "ppm_currentCh sm \<le> 16"
  shows "\<exists>sm'. ppm_HandleTimePair now sm p = Inr sm' \<and> length (ppm_channels sm') = 16 \<and>
           0 \<le> ppm_currentCh sm' \<and> ppm_currentCh sm' \<le> 16"
  using assms by (cases p) auto

lemma ppm_step_bounded_rev1:
  assumes "length (ppm_channels sm) = 16" "0 \<le> ppm_currentCh sm" "ppm_currentCh sm \<le> 16"
  shows "\<exists>sm'. ppm_HandleTimePair_rev1 thr now sm p = Inr sm' \<and> length (ppm_channels sm') = 16 \<and>
           0 \<le> ppm_currentCh sm' \<and> ppm_currentCh sm' \<le> 16"
  using assms by (cases p) auto

lemma ppm_feed_bounded:
  assumes step: "\<And>now sm p. length (ppm_channels sm) = 16 \<Longrightarrow> 0 \<le> ppm_currentCh sm \<Longrightarrow>
      ppm_currentCh sm \<le> 16 \<Longrightarrow>
      \<exists>sm'. h now sm p = Inr sm' \<and> length (ppm_channels sm') = 16 \<and>
           0 \<le> ppm_currentCh sm' \<and> ppm_currentCh sm' \<le> 16"
    and "length (ppm_channels sm) = 16" "0 \<le> ppm_currentCh sm" "ppm_currentCh sm \<le> 16"
  shows "\<exists>sm'. ppm_feed h sm ps = Inr sm' \<and> length (ppm_channels sm') = 16 \<and>
           0 \<le> ppm_currentCh sm' \<and> ppm_currentCh sm' \<le> 16"
  using assms(2-)
proof (induction ps arbitrary: sm)
  case Nil
  then show ?case by simp
next
  case (Cons x ps)
  obtain now p where x: "x = (now, p)" by (cases x)
  from step[OF Cons.prems, of now p] obtain sm1 where
    st: "h now sm p = Inr sm1" and
    inv: "length (ppm_channels sm1) = 16" "0 \<le> ppm_currentCh sm1" "ppm_currentCh sm1 \<le> 16" by blast
  from Cons.IH[OF inv] st show ?case by (simp add: x)
qed

lemma ppm_extra_channel_dropped:
  assumes "ppm_currentCh sm = 16" "on \<le> minimumTimeBetweenFrames"
  shows "ppm_HandleTimePair now sm (on, off) = Inr sm"
  using assms by simp

lemma ppm_extra_channel_dropped_rev1:
  assumes "ppm_currentCh sm = 16" "on \<le> thr"
  shows "ppm_HandleTimePair_rev1 thr now sm (on, off) = Inr sm"
  using assms by simp

lemma feed_counter_bounded:
  assumes step: "\<And>s p. 0 \<le> cnt s \<Longrightarrow> cnt s + 1 < B \<Longrightarrow>
      \<exists>s' out. h s p = Inr (s', out) \<and> 0 \<le> cnt s' \<and> cnt s' \<le> cnt s + 1"
    and "0 \<le> cnt s" "cnt s + int (length ps) < B"
  shows "\<exists>s' out. feed h s ps = Inr (s', out) \<and> 0 \<le> cnt s' \<and>
           cnt s' \<le> cnt s + int (length ps)"
  using assms(2,3)
proof (induction ps arbitrary: s)
  case Nil
  then show ?case by simp
next
  case (Cons p ps)
  from Cons.prems have b1: "cnt s + 1 < B" by simp
  from step[OF Cons.prems(1) b1, of p] obtain s1 out1 where
    st: "h s p = Inr (s1, out1)" and c: "0 \<le> cnt s1" "cnt s1 \<le> cnt s + 1"
    by blast
  from c Cons.prems(2) have b: "cnt s1 + int (length ps) < B" by simp
  from Cons.IH[OF c(1) b] obtain s' out where
    r: "feed h s1 ps = Inr (s', out)" "0 \<le> cnt s'" "cnt s' \<le> cnt s1 + int (length ps)"
    by blast
  from st r c show ?case by auto
qed

lemma samsung_step_counter:
  assumes "0 < w" "0 \<le> samsung_bitcount sm" "samsung_bitcount sm + 1 < 2 ^ (w - 1)"
  shows "\<exists>sm' out. samsung_HandleTimePair w sm p = Inr (sm', out) \<and>
           0 \<le> samsung_bitcount sm' \<and> samsung_bitcount sm' \<le> samsung_bitcount sm + 1"
proof -
  have inc: "int_wrap w (samsung_bitcount sm + 1) = samsung_bitcount sm + 1"
    using assms by (intro int_wrap_incr) simp_all
  show ?thesis
    using assms(2) by (cases p) (auto simp: samsung_bit_def Let_def UnmarshalFrame_def inc)
qed

lemma cheapo_step_counter:
  assumes "0 < w" "0 \<le> cheapo_bitcount c" "cheapo_bitcount c + 1 < 2 ^ (w - 1)"
  shows "\<exists>c' out. cheapo_HandleTimePair w c p = Inr (c', out) \<and>
           0 \<le> cheapo_bitcount c' \<and> cheapo_bitcount c' \<le> cheapo_bitcount c + 1"
proof -
  have inc: "int_wrap w (cheapo_bitcount c + 1) = cheapo_bitcount c + 1"
    using assms by (intro int_wrap_incr) simp_all
  show ?thesis
    using assms(2) by (cases p) (auto simp: cheapo_switch_def inc)
qed

lemma shift_past_word: "32 \<le> (n::int) \<Longrightarrow> (2 :: 32 word) ^ nat n = 0"
  by simp

lemma take_bit9_less: "take_bit 9 (v :: 16 word) = v \<Longrightarrow> v < 2 ^ 9"
proof -
  assume a: "take_bit 9 v = v"
  have "v AND mask 9 < 2 ^ 9"
    by (rule and_mask_less_size) (simp add: word_size)
  with a show ?thesis by (simp only: take_bit_eq_mask)
qed

text \<open>
  Beyond the bound on the run the counter of the addressed 32-bit decoder wraps as well,
  and the next one bit panics on the negative shift count.
\<close>

lemma samsung_counter_wraps:
  "samsung_HandleTimePair 32 \<lparr>samsung_buf = 0, samsung_bitcount = 2147483647\<rparr> (500000, 500000) =
     Inr (\<lparr>samsung_buf = 0, samsung_bitcount = - 2147483648\<rparr>, []) \<and>
   samsung_HandleTimePair 32 \<lparr>samsung_buf = 0, samsung_bitcount = - 2147483648\<rparr> (2000000, 500000) =
     Inl NegativeShiftCount"
  by code_simp

text \<open>
  Claim C6, as stated, fails for the generic fixed code decoder, whose frame is 10 bits
  wide: eleven one pairs fed to a new state machine leave the bit counter at 11 and the
  accumulator at 2047 (bit 10 set), and the handler is called at the tenth and again at
  the eleventh pair. The eleventh pair is neither clamped nor ignored.
\<close>

theorem cheapo_accumulates_past_frame_width:
  "feed (cheapo_HandleTimePair 32) cheapo_NewStateMachine (replicate 11 (500 * Microsecond, 2 * Millisecond)) =
     Inr (\<lparr>cheapo_buf = 2047, cheapo_bitcount = 11\<rparr>, [1023, 2047]) \<and>
   feed (cheapo_HandleTimePair 64) cheapo_NewStateMachine (replicate 11 (500 * Microsecond, 2 * Millisecond)) =
     Inr (\<lparr>cheapo_buf = 2047, cheapo_bitcount = 11\<rparr>, [1023, 2047])"
  by code_simp

text \<open>
  Claim C6, amended. Fed any pulse sequence from its constructor's state, the parity 9-bit
  decoder does not panic and keeps its bit counter between 0 and 8 and its accumulator and
  every value it hands over below \<open>2 ^ 9\<close>; both revisions of the proportional decoder do
  not panic and keep 16 channels and a channel index between 0 and 16, and a pair that is
  not a marker and arrives with the index at 16 changes nothing. The addressed 32-bit
  decoder and the generic fixed code decoder do not bound the bit counter by the frame
  width. Fed a sequence shorter than \<open>2 ^ (w - 1)\<close> from the constructor's state, with \<open>w\<close>
  the width of \<^verbatim>\<open>int\<close>, they do not panic and the counter stays between 0 and the number
  of pairs fed. While the counter is below the largest \<^verbatim>\<open>int\<close>: in the generic fixed code
  decoder a one bit that arrives with the counter from 10 to 31 is set in the accumulator
  at the counter's position and handed over, and the counter goes on by one; in both
  decoders a bit pair that arrives with the counter at 32 or more leaves the accumulator
  unchanged.
\<close>

theorem decoders_bounded_writes:
  "(\<exists>hb out. feed hexbug_HandleTimePair hexbug_NewStateMachine ps = Inr (hb, out) \<and>
      0 \<le> hexbug_bitcount hb \<and> hexbug_bitcount hb < 9 \<and> rcvbuf hb < 2 ^ 9 \<and>
      (\<forall>v\<in>set out. v < 2 ^ 9)) \<and>
   (\<exists>sm'. ppm_feed ppm_HandleTimePair ppm_NewStateMachine ts = Inr sm' \<and>
      length (ppm_channels sm') = 16 \<and> 0 \<le> ppm_currentCh sm' \<and> ppm_currentCh sm' \<le> 16) \<and>
   (\<exists>sm'. ppm_feed (ppm_HandleTimePair_rev1 thr) ppm_NewStateMachine_rev1 ts = Inr sm' \<and>
      length (ppm_channels sm') = 16 \<and> 0 \<le> ppm_currentCh sm' \<and> ppm_currentCh sm' \<le> 16) \<and>
   (ppm_currentCh sm = 16 \<and> p_on \<le> minimumTimeBetweenFrames \<longrightarrow>
      ppm_HandleTimePair now sm (p_on, p_off) = Inr sm) \<and>
   (ppm_currentCh sm = 16 \<and> p_on \<le> thr \<longrightarrow>
      ppm_HandleTimePair_rev1 thr now sm (p_on, p_off) = Inr sm) \<and>
   (0 < w \<and> int (length ps) < 2 ^ (w - 1) \<longrightarrow>
      (\<exists>s' out. feed (samsung_HandleTimePair w) samsung_NewStateMachine ps = Inr (s', out) \<and>
         0 \<le> samsung_bitcount s' \<and> samsung_bitcount s' \<le> int (length ps))) \<and>
   (0 < w \<and> 32 \<le> samsung_bitcount s \<and> samsung_bitcount s + 1 < 2 ^ (w - 1) \<and>
    s_on \<le> 200 * Millisecond \<and> s_off \<le> 3 * Millisecond \<longrightarrow>
      samsung_HandleTimePair w s (s_on, s_off) =
        Inr (s\<lparr>samsung_bitcount := samsung_bitcount s + 1\<rparr>, [])) \<and>
   (0 < w \<and> int (length ps) < 2 ^ (w - 1) \<longrightarrow>
      (\<exists>c' out. feed (cheapo_HandleTimePair w) cheapo_NewStateMachine ps = Inr (c', out) \<and>
         0 \<le> cheapo_bitcount c' \<and> cheapo_bitcount c' \<le> int (length ps))) \<and>
   (0 < w \<and> 10 \<le> cheapo_bitcount c \<and> cheapo_bitcount c < 32 \<and>
    cheapo_bitcount c + 1 < 2 ^ (w - 1) \<and> c_on \<le> 7 * Millisecond \<and> c_off > Millisecond \<longrightarrow>
      (\<exists>c'. cheapo_HandleTimePair w c (c_on, c_off) = Inr (c', [cheapo_buf c']) \<and>
         bit (cheapo_buf c') (nat (cheapo_bitcount c)) \<and>
         cheapo_bitcount c' = cheapo_bitcount c + 1)) \<and>
   (0 < w \<and> 32 \<le> cheapo_bitcount d \<and> cheapo_bitcount d + 1 < 2 ^ (w - 1) \<and>
    c_on \<le> 7 * Millisecond \<longrightarrow>
      (\<exists>c'. cheapo_HandleTimePair w d (c_on, c_off) = Inr (c', [cheapo_buf d]) \<and>
         cheapo_buf c' = cheapo_buf d))"
proof -
  have hex: "\<exists>hb out. feed hexbug_HandleTimePair hexbug_NewStateMachine ps = Inr (hb, out) \<and>
      0 \<le> hexbug_bitcount hb \<and> hexbug_bitcount hb < 9 \<and> rcvbuf hb < 2 ^ 9 \<and>
      (\<forall>v\<in>set out. v < 2 ^ 9)"
  proof -
    from hexbug_feed_bounded[of hexbug_NewStateMachine ps] obtain hb out where
      r: "feed hexbug_HandleTimePair hexbug_NewStateMachine ps = Inr (hb, out)"
         "0 \<le> hexbug_bitcount hb" "hexbug_bitcount hb < 9" and
      t: "take_bit 9 (rcvbuf hb) = rcvbuf hb" "\<forall>v\<in>set out. take_bit 9 v = v"
      by (auto simp: hexbug_NewStateMachine_def)
    from t have "rcvbuf hb < 2 ^ 9" "\<forall>v\<in>set out. v < 2 ^ 9"
      by (blast intro: take_bit9_less)+
    with r show ?thesis by blast
  qed
  have ppm: "\<exists>sm'. ppm_feed ppm_HandleTimePair ppm_NewStateMachine ts = Inr sm' \<and>
      length (ppm_channels sm') = 16 \<and> 0 \<le> ppm_currentCh sm' \<and> ppm_currentCh sm' \<le> 16"
    by (rule ppm_feed_bounded[OF ppm_step_bounded])
       (simp_all add: ppm_NewStateMachine_def SafeChannelsMid_def)
  have ppm1: "\<exists>sm'. ppm_feed (ppm_HandleTimePair_rev1 thr) ppm_NewStateMachine_rev1 ts = Inr sm' \<and>
      length (ppm_channels sm') = 16 \<and> 0 \<le> ppm_currentCh sm' \<and> ppm_currentCh sm' \<le> 16"
    by (rule ppm_feed_bounded[OF ppm_step_bounded_rev1])
       (simp_all add: ppm_NewStateMachine_rev1_def)
  have drop: "ppm_currentCh sm = 16 \<and> p_on \<le> minimumTimeBetweenFrames \<longrightarrow>
      ppm_HandleTimePair now sm (p_on, p_off) = Inr sm"
    using ppm_extra_channel_dropped[of sm p_on now p_off] by blast
  have drop1: "ppm_currentCh sm = 16 \<and> p_on \<le> thr \<longrightarrow>
      ppm_HandleTimePair_rev1 thr now sm (p_on, p_off) = Inr sm"
    using ppm_extra_channel_dropped_rev1[of sm p_on thr now p_off] by blast
  have sam: "\<exists>s' out. feed (samsung_HandleTimePair w) samsung_NewStateMachine ps = Inr (s', out) \<and>
         0 \<le> samsung_bitcount s' \<and> samsung_bitcount s' \<le> int (length ps)"
    if h: "0 < w" "int (length ps) < 2 ^ (w - 1)"
  proof -
    have "\<exists>s' out. feed (samsung_HandleTimePair w) samsung_NewStateMachine ps = Inr (s', out) \<and>
        0 \<le> samsung_bitcount s' \<and>
        samsung_bitcount s' \<le> samsung_bitcount samsung_NewStateMachine + int (length ps)"
    proof (rule feed_counter_bounded[where B = "2 ^ (w - 1)"])
      fix s :: samsung_StateMachine and p
      assume "0 \<le> samsung_bitcount s" "samsung_bitcount s + 1 < 2 ^ (w - 1)"
      then show "\<exists>s' out. samsung_HandleTimePair w s p = Inr (s', out) \<and>
          0 \<le> samsung_bitcount s' \<and> samsung_bitcount s' \<le> samsung_bitcount s + 1"
        by (rule samsung_step_counter[OF h(1)])
    next
      show "0 \<le> samsung_bitcount samsung_NewStateMachine"
        by (simp add: samsung_NewStateMachine_def)
    next
      show "samsung_bitcount samsung_NewStateMachine + int (length ps) < 2 ^ (w - 1)"
        using h(2) by (simp add: samsung_NewStateMachine_def)
    qed
    then show ?thesis by (simp add: samsung_NewStateMachine_def)
  qed
  have sam32: "0 < w \<and> 32 \<le> samsung_bitcount s \<and> samsung_bitcount s + 1 < 2 ^ (w - 1) \<and>
    s_on \<le> 200 * Millisecond \<and> s_off \<le> 3 * Millisecond \<longrightarrow>
      samsung_HandleTimePair w s (s_on, s_off) =
        Inr (s\<lparr>samsung_bitcount := samsung_bitcount s + 1\<rparr>, [])"
  proof (intro impI, elim conjE)
    assume h: "0 < w" "32 \<le> samsung_bitcount s" "samsung_bitcount s + 1 < 2 ^ (w - 1)"
      "s_on \<le> 200 * Millisecond" "s_off \<le> 3 * Millisecond"
    have inc: "int_wrap w (samsung_bitcount s + 1) = samsung_bitcount s + 1"
      using h(1,2,3) by (intro int_wrap_incr) simp_all
    show "samsung_HandleTimePair w s (s_on, s_off) =
        Inr (s\<lparr>samsung_bitcount := samsung_bitcount s + 1\<rparr>, [])"
      using h(2,4,5) by (simp add: samsung_bit_def shift_past_word inc)
  qed
  have che: "\<exists>c' out. feed (cheapo_HandleTimePair w) cheapo_NewStateMachine ps = Inr (c', out) \<and>
         0 \<le> cheapo_bitcount c' \<and> cheapo_bitcount c' \<le> int (length ps)"
    if h: "0 < w" "int (length ps) < 2 ^ (w - 1)"
  proof -
    have "\<exists>c' out. feed (cheapo_HandleTimePair w) cheapo_NewStateMachine ps = Inr (c', out) \<and>
        0 \<le> cheapo_bitcount c' \<and>
        cheapo_bitcount c' \<le> cheapo_bitcount cheapo_NewStateMachine + int (length ps)"
    proof (rule feed_counter_bounded[where B = "2 ^ (w - 1)"])
      fix s :: cheapo_StateMachine and p
      assume "0 \<le> cheapo_bitcount s" "cheapo_bitcount s + 1 < 2 ^ (w - 1)"
      then show "\<exists>s' out. cheapo_HandleTimePair w s p = Inr (s', out) \<and>
          0 \<le> cheapo_bitcount s' \<and> cheapo_bitcount s' \<le> cheapo_bitcount s + 1"
        by (rule cheapo_step_counter[OF h(1)])
    next
      show "0 \<le> cheapo_bitcount cheapo_NewStateMachine"
        by (simp add: cheapo_NewStateMachine_def)
    next
      show "cheapo_bitcount cheapo_NewStateMachine + int (length ps) < 2 ^ (w - 1)"
        using h(2) by (simp add: cheapo_NewStateMachine_def)
    qed
    then show ?thesis by (simp add: cheapo_NewStateMachine_def)
  qed
  have che10: "0 < w \<and> 10 \<le> cheapo_bitcount c \<and> cheapo_bitcount c < 32 \<and>
    cheapo_bitcount c + 1 < 2 ^ (w - 1) \<and> c_on \<le> 7 * Millisecond \<and> c_off > Millisecond \<longrightarrow>
      (\<exists>c'. cheapo_HandleTimePair w c (c_on, c_off) = Inr (c', [cheapo_buf c']) \<and>
         bit (cheapo_buf c') (nat (cheapo_bitcount c)) \<and>
         cheapo_bitcount c' = cheapo_bitcount c + 1)"
  proof (intro impI, elim conjE)
    assume h: "0 < w" "10 \<le> cheapo_bitcount c" "cheapo_bitcount c < 32"
      "cheapo_bitcount c + 1 < 2 ^ (w - 1)" "c_on \<le> 7 * Millisecond" "c_off > Millisecond"
    have inc: "int_wrap w (cheapo_bitcount c + 1) = cheapo_bitcount c + 1"
      using h(1,2,4) by (intro int_wrap_incr) simp_all
    have b: "bit (cheapo_buf c OR push_bit (nat (cheapo_bitcount c)) 1) (nat (cheapo_bitcount c))"
    proof -
      from h(2,3) have "nat (cheapo_bitcount c) < 32" by linarith
      then show ?thesis by (simp add: bit_simps del: push_bit_of_1)
    qed
    show "\<exists>c'. cheapo_HandleTimePair w c (c_on, c_off) = Inr (c', [cheapo_buf c']) \<and>
         bit (cheapo_buf c') (nat (cheapo_bitcount c)) \<and>
         cheapo_bitcount c' = cheapo_bitcount c + 1"
      using h(2,5,6) b by (simp add: cheapo_switch_def inc del: push_bit_of_1)
  qed
  have che32: "0 < w \<and> 32 \<le> cheapo_bitcount d \<and> cheapo_bitcount d + 1 < 2 ^ (w - 1) \<and>
    c_on \<le> 7 * Millisecond \<longrightarrow>
      (\<exists>c'. cheapo_HandleTimePair w d (c_on, c_off) = Inr (c', [cheapo_buf d]) \<and>
         cheapo_buf c' = cheapo_buf d)"
  proof (intro impI, elim conjE)
    assume h: "0 < w" "32 \<le> cheapo_bitcount d" "cheapo_bitcount d + 1 < 2 ^ (w - 1)"
      "c_on \<le> 7 * Millisecond"
    have inc: "int_wrap w (cheapo_bitcount d + 1) = cheapo_bitcount d + 1"
      using h(1,2,3) by (intro int_wrap_incr) simp_all
    show "\<exists>c'. cheapo_HandleTimePair w d (c_on, c_off) = Inr (c', [cheapo_buf d]) \<and>
         cheapo_buf c' = cheapo_buf d"
      using h(2,4) by (simp add: cheapo_switch_def shift_past_word inc)
  qed
  from hex ppm ppm1 drop drop1 sam sam32 che che10 che32 show ?thesis by blast
qed

theorem decoders_bounded_writes_witness:
  "(\<exists>hb out. feed hexbug_HandleTimePair hexbug_NewStateMachine
        (replicate 8 (350000, 350000) @ [(350000, 1000000)]) = Inr (hb, out) \<and>
      0 \<le> hexbug_bitcount hb \<and> hexbug_bitcount hb < 9 \<and> rcvbuf hb < 2 ^ 9) \<and>
   (\<exists>sm'. ppm_feed ppm_HandleTimePair ppm_NewStateMachine
        ((5000, (7000000, 400000)) # replicate 17 (6000, (1000000, 200000))) = Inr sm' \<and>
      length (ppm_channels sm') = 16 \<and> 0 \<le> ppm_currentCh sm' \<and> ppm_currentCh sm' \<le> 16) \<and>
   (\<exists>sm'. ppm_feed (ppm_HandleTimePair_rev1 6000000) ppm_NewStateMachine_rev1
        ((5000, (7000000, 400000)) # replicate 17 (6000, (1000000, 200000))) = Inr sm' \<and>
      length (ppm_channels sm') = 16 \<and> 0 \<le> ppm_currentCh sm' \<and> ppm_currentCh sm' \<le> 16) \<and>
   ppm_HandleTimePair 7000 (ppm_NewStateMachine\<lparr>ppm_currentCh := 16, ppm_last := 5000\<rparr>) (1000000, 200000) =
      Inr (ppm_NewStateMachine\<lparr>ppm_currentCh := 16, ppm_last := 5000\<rparr>) \<and>
   ppm_HandleTimePair_rev1 6000000 7000 (ppm_NewStateMachine\<lparr>ppm_currentCh := 16, ppm_last := 5000\<rparr>)
        (1000000, 200000) =
      Inr (ppm_NewStateMachine\<lparr>ppm_currentCh := 16, ppm_last := 5000\<rparr>) \<and>
   (\<exists>s' out. feed (samsung_HandleTimePair 32) samsung_NewStateMachine
        (replicate 8 (350000, 350000) @ [(350000, 1000000)]) = Inr (s', out) \<and>
      0 \<le> samsung_bitcount s' \<and> samsung_bitcount s' \<le> 9) \<and>
   samsung_HandleTimePair 32 \<lparr>samsung_buf = 5, samsung_bitcount = 32\<rparr> (2000000, 500000) =
      Inr (\<lparr>samsung_buf = 5, samsung_bitcount = 33\<rparr>, []) \<and>
   (\<exists>c' out. feed (cheapo_HandleTimePair 32) cheapo_NewStateMachine
        (replicate 8 (350000, 350000) @ [(350000, 1000000)]) = Inr (c', out) \<and>
      0 \<le> cheapo_bitcount c' \<and> cheapo_bitcount c' \<le> 9) \<and>
   (\<exists>c'. cheapo_HandleTimePair 32 \<lparr>cheapo_buf = 1023, cheapo_bitcount = 10\<rparr> (500000, 2000000) =
          Inr (c', [cheapo_buf c']) \<and>
      bit (cheapo_buf c') 10 \<and> cheapo_bitcount c' = 11) \<and>
   (\<exists>c'. cheapo_HandleTimePair 32 \<lparr>cheapo_buf = 5, cheapo_bitcount = 32\<rparr> (500000, 2000000) = Inr (c', [5]) \<and>
      cheapo_buf c' = 5)"
proof -
  let ?ps = "replicate 8 (350000, 350000) @ [(350000, 1000000)] :: TimePair list"
  let ?sm = "ppm_NewStateMachine\<lparr>ppm_currentCh := 16, ppm_last := 5000\<rparr>"
  let ?s = "\<lparr>samsung_buf = 5, samsung_bitcount = 32\<rparr>"
  let ?c = "\<lparr>cheapo_buf = 1023, cheapo_bitcount = 10\<rparr>"
  let ?d = "\<lparr>cheapo_buf = 5, cheapo_bitcount = 32\<rparr>"
  have h1: "ppm_currentCh ?sm = 16 \<and> (1000000 :: int) \<le> minimumTimeBetweenFrames"
    by (simp add: minimumTimeBetweenFrames_def)
  have h1': "ppm_currentCh ?sm = 16 \<and> (1000000 :: int) \<le> 6000000"
    by simp
  have hw: "0 < (32::nat) \<and> int (length ?ps) < 2 ^ (32 - 1)"
    by simp
  have h2: "0 < (32::nat) \<and> 32 \<le> samsung_bitcount ?s \<and> samsung_bitcount ?s + 1 < 2 ^ (32 - 1) \<and>
            (2000000 :: int) \<le> 200 * Millisecond \<and> (500000 :: int) \<le> 3 * Millisecond"
    by simp
  have h3: "0 < (32::nat) \<and> 10 \<le> cheapo_bitcount ?c \<and> cheapo_bitcount ?c < 32 \<and>
            cheapo_bitcount ?c + 1 < 2 ^ (32 - 1) \<and> (500000 :: int) \<le> 7 * Millisecond \<and>
            (2000000 :: int) > Millisecond"
    by simp
  have h4: "0 < (32::nat) \<and> 32 \<le> cheapo_bitcount ?d \<and> cheapo_bitcount ?d + 1 < 2 ^ (32 - 1) \<and>
            (500000 :: int) \<le> 7 * Millisecond"
    by simp
  have e: "?s\<lparr>samsung_bitcount := samsung_bitcount ?s + 1\<rparr> = \<lparr>samsung_buf = 5, samsung_bitcount = 33\<rparr>"
      "cheapo_buf ?d = 5" "int (length ?ps) = 9" "nat (cheapo_bitcount ?c) = 10"
      "cheapo_bitcount ?c + 1 = 11"
    by simp_all
  from decoders_bounded_writes[where ps = ?ps
      and ts = "(5000, (7000000, 400000)) # replicate 17 (6000, (1000000, 200000))"
      and thr = 6000000 and w = 32
      and sm = ?sm and p_on = 1000000 and p_off = 200000 and now = 7000
      and s = ?s and s_on = 2000000 and s_off = 500000
      and c = ?c and d = ?d and c_on = 500000 and c_off = 2000000] h1 h1' hw h2 h3 h4
  show ?thesis
    unfolding e by blast
qed

end
